theory Spec2Isabelle
  imports Main "HOL-Library.Word"
begin

section \<open>Time and machine integers\<close>

text \<open>
  A \<open>time.Time\<close> is an instant, counted here in nanoseconds since the Unix epoch.
  A \<open>time.Duration\<close> is an \<open>int64\<close> count of nanoseconds, and Go's \<open>int\<close> is
  taken at its 64-bit size; both wrap around, so both are 64-bit words read with \<open>sint\<close>.
  Every call of \<open>time.Now()\<close> in the source is an explicit argument of the model.
\<close>

type_synonym time = int
type_synonym Duration = "64 word"
type_synonym go_int = "64 word"

definition Second :: Duration where
  "Second = 1000000000"

definition Add :: "time \<Rightarrow> Duration \<Rightarrow> time" where
  "Add t d = t + sint d"

section \<open>The collaborators: securecookie, net/http, gorilla/sessions, bolthold\<close>

subsection \<open>securecookie: values, codecs, EncodeMulti and DecodeMulti\<close>

text \<open>
  The values that travel through a codec. \<open>session.Values\<close> is a map from keys to values of
  any type; the store itself only ever looks at the key \<open>modified\<close>, which must hold a time.
  A codec is the interface \<open>securecookie.Codec\<close>: it may refuse to encode, and it may
  refuse to decode (wrong name, failed authentication, token too old or too long).
  The serializer is typed: decoding into a destination of another type than the one that
  was encoded is an error of that codec. The destination is the projection \<open>dst\<close>.
\<close>

datatype iface = VString string | VTime time

type_synonym session_values = "(string \<times> iface) list"

datatype gobval = GobString string | GobUint "64 word" | GobValues session_values

datatype error =
    ErrNoCookie
  | ErrNoCodecs
  | ErrMulti
  | ErrNotFound
  | ErrKeyExists
  | ErrInvalidModified

record Codec =
  Encode :: "string \<Rightarrow> gobval \<Rightarrow> string option"
  Decode :: "string \<Rightarrow> string \<Rightarrow> gobval option"

fun as_string :: "gobval \<Rightarrow> string option" where
  "as_string (GobString s) = Some s"
| "as_string _ = None"

fun as_values :: "gobval \<Rightarrow> session_values option" where
  "as_values (GobValues vs) = Some vs"
| "as_values _ = None"

fun EncodeFirst :: "string \<Rightarrow> gobval \<Rightarrow> Codec list \<Rightarrow> string option" where
  "EncodeFirst name v [] = None"
| "EncodeFirst name v (codec # codecs) =
     (case Encode codec name v of
        Some encoded \<Rightarrow> Some encoded
      | None \<Rightarrow> EncodeFirst name v codecs)"

definition EncodeMulti :: "string \<Rightarrow> gobval \<Rightarrow> Codec list \<Rightarrow> error + string" where
  "EncodeMulti name v codecs =
     (if codecs = [] then Inl ErrNoCodecs
      else case EncodeFirst name v codecs of
             Some encoded \<Rightarrow> Inr encoded
           | None \<Rightarrow> Inl ErrMulti)"

fun DecodeFirst :: "(gobval \<Rightarrow> 'a option) \<Rightarrow> string \<Rightarrow> string \<Rightarrow> Codec list \<Rightarrow> 'a option" where
  "DecodeFirst dst name v [] = None"
| "DecodeFirst dst name v (codec # codecs) =
     (case Decode codec name v of
        None \<Rightarrow> DecodeFirst dst name v codecs
      | Some x \<Rightarrow> (case dst x of
                    Some y \<Rightarrow> Some y
                  | None \<Rightarrow> DecodeFirst dst name v codecs))"

definition DecodeMulti :: "(gobval \<Rightarrow> 'a option) \<Rightarrow> string \<Rightarrow> string \<Rightarrow> Codec list \<Rightarrow> error + 'a" where
  "DecodeMulti dst name v codecs =
     (if codecs = [] then Inl ErrNoCodecs
      else case DecodeFirst dst name v codecs of
             Some y \<Rightarrow> Inr y
           | None \<Rightarrow> Inl ErrMulti)"

text \<open>
  A codec given by a finite code book of (name, value, token) entries: it encodes a value
  under a name to the token the book lists for it, and decodes a token under a name to the value
  the book lists. It stands for a keyed codec on the finitely many values of one scenario.
\<close>

definition book_codec :: "((string \<times> gobval) \<times> string) list \<Rightarrow> Codec" where
  "book_codec book =
     \<lparr> Encode = (\<lambda>name v. map_of book (name, v)),
       Decode = (\<lambda>name t. map_of (map (\<lambda>((n, v), t'). ((n, t'), v)) book) (name, t)) \<rparr>"

subsection \<open>net/http and gorilla/sessions\<close>

record Request =
  cookies :: "(string \<times> string) list"

definition Cookie :: "Request \<Rightarrow> string \<Rightarrow> error + string" where
  "Cookie r name =
     (case map_of (cookies r) name of
        None \<Rightarrow> Inl ErrNoCookie
      | Some v \<Rightarrow> Inr v)"

record Options =
  Path :: string
  Domain :: string
  MaxAge :: go_int
  Secure :: bool
  HttpOnly :: bool
  SameSite :: int

text \<open>
  The cookie \<open>sessions.NewCookie\<close> builds: name, value and the attributes copied from the
  options (the \<open>Expires\<close> date it derives from the max-age is left out).
  A response is the list of cookies set on it, in order. \<open>http.SetCookie\<close> adds the header
  only when the name of the cookie is a valid token: not empty, and made of the token
  characters of HTTP (letters, digits and \<open>! # $ % & ' * + - . ^ _ ` | ~\<close>), given here by
  their codes. It keeps the value as it is handed in.
\<close>

record http_Cookie =
  Name :: string
  Value :: string
  Attributes :: Options

type_synonym ResponseWriter = "http_Cookie list"

definition NewCookie :: "string \<Rightarrow> string \<Rightarrow> Options \<Rightarrow> http_Cookie" where
  "NewCookie name v options = \<lparr> Name = name, Value = v, Attributes = options \<rparr>"

definition isTokenRune :: "char \<Rightarrow> bool" where
  "isTokenRune c =
     (let n = (of_char c :: nat) in
      n = 33 \<or> (35 \<le> n \<and> n \<le> 39) \<or> n = 42 \<or> n = 43 \<or> n = 45 \<or> n = 46
      \<or> (48 \<le> n \<and> n \<le> 57) \<or> (65 \<le> n \<and> n \<le> 90) \<or> (94 \<le> n \<and> n \<le> 122)
      \<or> n = 124 \<or> n = 126)"

definition isCookieNameValid :: "string \<Rightarrow> bool" where
  "isCookieNameValid raw = (raw \<noteq> [] \<and> list_all isTokenRune raw)"

definition SetCookie :: "ResponseWriter \<Rightarrow> http_Cookie \<Rightarrow> ResponseWriter" where
  "SetCookie w cookie = (if isCookieNameValid (Name cookie) then w @ [cookie] else w)"

record sessions_Session =
  ID :: string
  Values :: session_values
  Options :: Options
  IsNew :: bool
  name :: string

text \<open>\<open>sessions.NewSession\<close> followed by the assignment of the options and of \<open>IsNew = true\<close>.\<close>

definition NewSession :: "string \<Rightarrow> Options \<Rightarrow> sessions_Session" where
  "NewSession nm opts =
     \<lparr> ID = [], Values = [], Options = opts, IsNew = True, name = nm \<rparr>"

subsection \<open>bolthold: a bucket of records under keys\<close>

text \<open>
  A bucket is the list of its (key, record) pairs in the order a query walks them.
  \<open>Get\<close>, \<open>Update\<close> and \<open>Delete\<close> fail with \<open>ErrNotFound\<close> on a missing key,
  \<open>Upsert\<close> never does; \<open>FindOne\<close> returns the first record the query accepts,
  \<open>DeleteMatching\<close> removes every record it accepts. Failures of the storage medium are
  outside the model.
\<close>

type_synonym ('k, 'r) bucket = "('k \<times> 'r) list"

definition Get :: "'k \<Rightarrow> ('k, 'r) bucket \<Rightarrow> error + 'r" where
  "Get key b = (case map_of b key of None \<Rightarrow> Inl ErrNotFound | Some r \<Rightarrow> Inr r)"

definition Update :: "'k \<Rightarrow> 'r \<Rightarrow> ('k, 'r) bucket \<Rightarrow> error + ('k, 'r) bucket" where
  "Update key r b =
     (if key \<in> set (map fst b)
      then Inr (map (\<lambda>(k, old). if k = key then (k, r) else (k, old)) b)
      else Inl ErrNotFound)"

definition Upsert :: "'k \<Rightarrow> 'r \<Rightarrow> ('k, 'r) bucket \<Rightarrow> ('k, 'r) bucket" where
  "Upsert key r b =
     (if key \<in> set (map fst b)
      then map (\<lambda>(k, old). if k = key then (k, r) else (k, old)) b
      else b @ [(key, r)])"

definition Delete :: "'k \<Rightarrow> ('k, 'r) bucket \<Rightarrow> error + ('k, 'r) bucket" where
  "Delete key b =
     (if key \<in> set (map fst b)
      then Inr (filter (\<lambda>(k, old). k \<noteq> key) b)
      else Inl ErrNotFound)"

definition FindOne :: "('r \<Rightarrow> bool) \<Rightarrow> ('k, 'r) bucket \<Rightarrow> error + ('k \<times> 'r)" where
  "FindOne query b =
     (case find (\<lambda>(k, r). query r) b of
        None \<Rightarrow> Inl ErrNotFound
      | Some kr \<Rightarrow> Inr kr)"

definition DeleteMatching :: "('r \<Rightarrow> bool) \<Rightarrow> ('k, 'r) bucket \<Rightarrow> ('k, 'r) bucket" where
  "DeleteMatching query b = filter (\<lambda>(k, r). \<not> query r) b"

section \<open>The store with sequence keys (boltstore.go)\<close>

record Session =
  ID :: "64 word"
  Session :: string
  Data :: string
  CreatedAt :: time
  UpdatedAt :: time
  ExpiresAt :: time

text \<open>
  The bolthold store of \<open>Session\<close> records: the bucket and its sequence counter.
  \<open>Insert\<close> with \<open>bolthold.NextSequence()\<close> takes the next value of the counter as the key,
  fails with \<open>ErrKeyExists\<close> when that key is taken, and writes the key into the
  \<open>boltholdKey\<close> field of the caller's record when that field is zero.
  Reading a record fills its \<open>boltholdKey\<close> field with the key it is stored under.
\<close>

record bolthold_Store =
  sequence :: "64 word"
  bucket :: "(64 word, Session) bucket"

definition Insert_NextSequence :: "Session \<Rightarrow> bolthold_Store \<Rightarrow> error + (bolthold_Store \<times> Session)" where
  "Insert_NextSequence s db =
     (let key = sequence db + 1 in
      if key \<in> set (map fst (bucket db)) then Inl ErrKeyExists
      else Inr (db\<lparr>sequence := key, bucket := bucket db @ [(key, s)]\<rparr>,
                if Session.ID s = 0 then s\<lparr>Session.ID := key\<rparr> else s))"

record BoltStore =
  store :: bolthold_Store
  Codecs :: "Codec list"
  Options :: Options

text \<open>
  \<open>MaxAge\<close> sets the max-age of the store's options; the max-age it hands to each codec
  is part of the codec, and so is the clock of the codec: whether a token has aged out shows
  in whether the codec decodes it at the moment of the call. \<open>New\<close> calls it with the max-age the store already has, and \<open>Get\<close>
  reaches \<open>New\<close> through the registry of the request. \<open>getSessionFromCookie\<close> and \<open>New\<close>
  read the clock once (\<open>tnow\<close>).
\<close>

definition BoltStore_MaxAge :: "BoltStore \<Rightarrow> go_int \<Rightarrow> BoltStore" where
  "BoltStore_MaxAge st age = st\<lparr>BoltStore.Options := (BoltStore.Options st)\<lparr>MaxAge := age\<rparr>\<rparr>"

definition getSessionFromCookie :: "BoltStore \<Rightarrow> Request \<Rightarrow> string \<Rightarrow> time \<Rightarrow> Session option" where
  "getSessionFromCookie st r nm tnow =
     (case Cookie r nm of
        Inl e \<Rightarrow> None
      | Inr v \<Rightarrow>
          (case DecodeMulti as_string nm v (Codecs st) of
             Inl e \<Rightarrow> None
           | Inr sessionID \<Rightarrow>
               (case FindOne (\<lambda>s. Session s = sessionID \<and> tnow < ExpiresAt s) (bucket (store st)) of
                  Inl e \<Rightarrow> None
                | Inr (key, s) \<Rightarrow> Some (s\<lparr>Session.ID := key\<rparr>))))"

definition New :: "BoltStore \<Rightarrow> Request \<Rightarrow> string \<Rightarrow> time \<Rightarrow> sessions_Session \<times> error option \<times> BoltStore" where
  "New st r nm tnow =
     (let session = NewSession nm (BoltStore.Options st);
          st1 = BoltStore_MaxAge st (MaxAge (BoltStore.Options st))
      in case getSessionFromCookie st1 r (name session) tnow of
           None \<Rightarrow> (session, None, st1)
         | Some s \<Rightarrow>
             (case DecodeMulti as_values (name session) (Data s) (Codecs st1) of
                Inl e \<Rightarrow> (session, None, st1)
              | Inr vs \<Rightarrow>
                  (session\<lparr>Values := vs, sessions_Session.ID := Session s, IsNew := False\<rparr>,
                   None, st1)))"

text \<open>
  \<open>Save\<close> reads the clock twice (\<open>tlookup\<close> inside \<open>getSessionFromCookie\<close>, then \<open>now\<close>)
  and draws one random identifier \<open>rnd\<close> (the base-32 text of 32 random bytes without
  padding). It returns its error together with the store, the response and the session
  as it leaves them. \<open>finish_Save\<close> is the end both branches share: the token of the
  cookie is encoded from the \<open>ID\<close> field of the record, and the cookie is set.
\<close>

definition finish_Save ::
  "BoltStore \<Rightarrow> bolthold_Store \<Rightarrow> ResponseWriter \<Rightarrow> sessions_Session \<Rightarrow> Session
     \<Rightarrow> error option \<times> BoltStore \<times> ResponseWriter \<times> sessions_Session" where
  "finish_Save st db w session s =
     (case EncodeMulti (name session) (GobUint (Session.ID s)) (Codecs st) of
        Inl e \<Rightarrow> (Some e, st\<lparr>store := db\<rparr>, w, session)
      | Inr token \<Rightarrow>
          (None, st\<lparr>store := db\<rparr>,
           SetCookie w (NewCookie (name session) token (sessions_Session.Options session)), session))"

definition Save ::
  "BoltStore \<Rightarrow> Request \<Rightarrow> ResponseWriter \<Rightarrow> sessions_Session \<Rightarrow> time \<Rightarrow> time \<Rightarrow> string
     \<Rightarrow> error option \<times> BoltStore \<times> ResponseWriter \<times> sessions_Session" where
  "Save st r w session tlookup now rnd =
     (let found = getSessionFromCookie st r (name session) tlookup in
      if sint (MaxAge (sessions_Session.Options session)) < 0 then
        (case found of
           Some s \<Rightarrow>
             (case Delete (Session.ID s) (bucket (store st)) of
                Inl e \<Rightarrow> (Some e, st, w, session)
              | Inr b \<Rightarrow>
                  (None, st\<lparr>store := (store st)\<lparr>bucket := b\<rparr>\<rparr>,
                   SetCookie w (NewCookie (name session) [] (sessions_Session.Options session)),
                   session))
         | None \<Rightarrow>
             (None, st,
              SetCookie w (NewCookie (name session) [] (sessions_Session.Options session)),
              session))
      else
        (case EncodeMulti (name session) (GobValues (Values session)) (Codecs st) of
           Inl e \<Rightarrow> (Some e, st, w, session)
         | Inr data \<Rightarrow>
             (let expire = Add now (Second * MaxAge (sessions_Session.Options session)) in
              case found of
                None \<Rightarrow>
                  (let session1 = session\<lparr>sessions_Session.ID := rnd\<rparr>;
                       s = \<lparr> ID = 0, Session = sessions_Session.ID session1, Data = data,
                             CreatedAt = now, UpdatedAt = now, ExpiresAt = expire \<rparr>
                   in case Insert_NextSequence s (store st) of
                        Inl e \<Rightarrow> (Some e, st, w, session1)
                      | Inr (db, s1) \<Rightarrow> finish_Save st db w session1 s1)
              | Some s0 \<Rightarrow>
                  (let s = s0\<lparr>Data := data, UpdatedAt := now, ExpiresAt := expire\<rparr>
                   in case Update (Session.ID s) s (bucket (store st)) of
                        Inl e \<Rightarrow> (Some e, st, w, session)
                      | Inr b \<Rightarrow> finish_Save st ((store st)\<lparr>bucket := b\<rparr>) w session s))))"

definition Cleanup :: "BoltStore \<Rightarrow> time \<Rightarrow> BoltStore" where
  "Cleanup st tnow =
     st\<lparr>store := (store st)\<lparr>bucket := DeleteMatching (\<lambda>s. ExpiresAt s \<le> tnow) (bucket (store st))\<rparr>\<rparr>"

section \<open>The first generation: records under their identifier (part_000)\<close>

text \<open>
  The earlier store keeps a record under the session identifier itself; it has no
  sequence key and no expiry date. Its names carry the suffix \<open>_v1\<close>.
\<close>

record Session_v1 =
  ID_v1 :: string
  Data_v1 :: string
  Modified :: time

record Store_v1 =
  Codecs_v1 :: "Codec list"
  Options_v1 :: Options
  store_v1 :: "(string, Session_v1) bucket"

definition load_v1 :: "Store_v1 \<Rightarrow> sessions_Session \<Rightarrow> error + sessions_Session" where
  "load_v1 m session =
     (case Get (sessions_Session.ID session) (store_v1 m) of
        Inl e \<Rightarrow> Inl e
      | Inr s \<Rightarrow>
          (case DecodeMulti as_values (name session) (Data_v1 s) (Codecs_v1 m) of
             Inl e \<Rightarrow> Inl e
           | Inr vs \<Rightarrow> Inr (session\<lparr>Values := vs\<rparr>)))"

definition New_v1 :: "Store_v1 \<Rightarrow> Request \<Rightarrow> string \<Rightarrow> sessions_Session \<times> error option" where
  "New_v1 m r nm =
     (let session = NewSession nm (Options_v1 m) in
      case Cookie r nm of
        Inl e \<Rightarrow> (session, Some e)
      | Inr v \<Rightarrow>
          (case DecodeMulti as_string nm v (Codecs_v1 m) of
             Inl e \<Rightarrow> (session, Some e)
           | Inr sid \<Rightarrow>
               (let session1 = session\<lparr>sessions_Session.ID := sid\<rparr> in
                case load_v1 m session1 of
                  Inl e \<Rightarrow> if e \<noteq> ErrNotFound then (session1, Some e) else (session1, None)
                | Inr session2 \<Rightarrow> (session2\<lparr>IsNew := False\<rparr>, None))))"

definition upsert_v1 :: "Store_v1 \<Rightarrow> sessions_Session \<Rightarrow> time \<Rightarrow> error + Store_v1" where
  "upsert_v1 m session tnow =
     (case (case map_of (Values session) ''modified'' of
              Some v \<Rightarrow> (case v of VTime t \<Rightarrow> Inr t | VString x \<Rightarrow> Inl ErrInvalidModified)
            | None \<Rightarrow> Inr tnow) of
        Inl e \<Rightarrow> Inl e
      | Inr modified \<Rightarrow>
          (case EncodeMulti (name session) (GobValues (Values session)) (Codecs_v1 m) of
             Inl e \<Rightarrow> Inl e
           | Inr encoded \<Rightarrow>
               Inr (m\<lparr>store_v1 :=
                      Upsert (sessions_Session.ID session)
                        \<lparr> ID_v1 = sessions_Session.ID session, Data_v1 = encoded,
                          Modified = modified \<rparr>
                        (store_v1 m)\<rparr>)))"

definition delete_v1 :: "Store_v1 \<Rightarrow> sessions_Session \<Rightarrow> error + Store_v1" where
  "delete_v1 m session =
     (case Delete (sessions_Session.ID session) (store_v1 m) of
        Inl e \<Rightarrow> Inl e
      | Inr b \<Rightarrow> Inr (m\<lparr>store_v1 := b\<rparr>))"

definition Save_v1 ::
  "Store_v1 \<Rightarrow> ResponseWriter \<Rightarrow> sessions_Session \<Rightarrow> time \<Rightarrow> string
     \<Rightarrow> error option \<times> Store_v1 \<times> ResponseWriter \<times> sessions_Session" where
  "Save_v1 m w session tnow rnd =
     (if sint (MaxAge (sessions_Session.Options session)) < 0 then
        (case delete_v1 m session of
           Inl e \<Rightarrow> (Some e, m, w, session)
         | Inr m1 \<Rightarrow>
             (None, m1,
              SetCookie w (NewCookie (name session) [] (sessions_Session.Options session)),
              session))
      else
        (let session1 = (if sessions_Session.ID session = []
                         then session\<lparr>sessions_Session.ID := rnd\<rparr> else session) in
         case upsert_v1 m session1 tnow of
           Inl e \<Rightarrow> (Some e, m, w, session1)
         | Inr m1 \<Rightarrow>
             (case EncodeMulti (name session1) (GobString (sessions_Session.ID session1)) (Codecs_v1 m) of
                Inl e \<Rightarrow> (Some e, m1, w, session1)
              | Inr encoded \<Rightarrow>
                  (None, m1,
                   SetCookie w (NewCookie (name session1) encoded (sessions_Session.Options session1)),
                   session1))))"

section \<open>The invariant of the expiry date\<close>

text \<open>
  The data model's invariant, in the spec's words: the expiry date of a record is its update
  time plus the configured max-age. \<open>expires_after m s\<close> says so for the record \<open>s\<close> and the
  max-age \<open>m\<close> in seconds (times are in nanoseconds); \<open>expiry_invariant ages st\<close> says that
  every record of the store does so for one of the max-ages \<open>ages\<close> in use, the one of the
  store's options and those that sessions set for themselves.
\<close>

definition expires_after :: "go_int \<Rightarrow> Session \<Rightarrow> bool" where
  "expires_after m s = (ExpiresAt s = UpdatedAt s + 1000000000 * sint m)"

definition expiry_invariant :: "go_int list \<Rightarrow> BoltStore \<Rightarrow> bool" where
  "expiry_invariant ages st =
     list_all (\<lambda>(k, s). list_ex (\<lambda>m. expires_after m s) ages) (bucket (store st))"

section \<open>Scenarios\<close>

text \<open>
  The concrete data of the examples below: the default options of \<open>New\<close> (path \<open>/\<close>,
  thirty days), a code book for the cookie name \<open>sid\<close>, an empty store, and the session of a
  first visit that holds the value \<open>user = alice\<close> and asks for one hour.
\<close>

definition demo_options :: Options where
  "demo_options =
     \<lparr> Path = ''/'', Domain = [], MaxAge = 2592000, Secure = False, HttpOnly = False, SameSite = 0 \<rparr>"

definition demo_book :: "((string \<times> gobval) \<times> string) list" where
  "demo_book =
     [((''sid'', GobValues [(''user'', VString ''alice'')]), ''token-of-values''),
      ((''sid'', GobUint 1), ''token-of-key-1''),
      ((''sid'', GobString ''RANDOMID''), ''token-of-identifier'')]"

definition demo_store :: BoltStore where
  "demo_store =
     \<lparr> store = \<lparr> sequence = 0, bucket = [] \<rparr>, Codecs = [book_codec demo_book],
       BoltStore.Options = demo_options \<rparr>"

definition demo_session :: sessions_Session where
  "demo_session =
     \<lparr> sessions_Session.ID = [], Values = [(''user'', VString ''alice'')],
       sessions_Session.Options = demo_options\<lparr>MaxAge := 3600\<rparr>, IsNew = True, name = ''sid'' \<rparr>"

definition demo_record :: Session where
  "demo_record =
     \<lparr> Session.ID = 0, Session = ''RANDOMID'', Data = ''token-of-values'', CreatedAt = 1000,
       UpdatedAt = 1000, ExpiresAt = 3600000001000 \<rparr>"

definition demo_store_saved :: BoltStore where
  "demo_store_saved = demo_store\<lparr>store := \<lparr> sequence = 1, bucket = [(1, demo_record)] \<rparr>\<rparr>"

definition demo_cookie :: http_Cookie where
  "demo_cookie =
     \<lparr> Name = ''sid'', Value = ''token-of-key-1'', Attributes = demo_options\<lparr>MaxAge := 3600\<rparr> \<rparr>"




definition demo_store_v1 :: Store_v1 where
  "demo_store_v1 =
     \<lparr> Codecs_v1 = [book_codec demo_book], Options_v1 = demo_options, store_v1 = [] \<rparr>"

definition demo_expired_record :: Session where
  "demo_expired_record =
     \<lparr> Session.ID = 0, Session = ''OLDID'', Data = ''token-of-values'', CreatedAt = 10,
       UpdatedAt = 10, ExpiresAt = 1500 \<rparr>"

definition demo_store_two :: BoltStore where
  "demo_store_two =
     demo_store\<lparr>store := \<lparr> sequence = 2, bucket = [(1, demo_expired_record), (2, demo_record)] \<rparr>\<rparr>"

text \<open>
  A run of \<open>Save\<close> calls, one request each: the store of one call is the store the next
  call starts from. Each call has its own request, session, clock readings and random
  identifier, and a response of its own.
\<close>

record SaveCall =
  call_request :: Request
  call_session :: sessions_Session
  call_tlookup :: time
  call_now :: time
  call_rnd :: string

definition Save_call :: "BoltStore \<Rightarrow> SaveCall \<Rightarrow> BoltStore" where
  "Save_call st c =
     fst (snd (Save st (call_request c) [] (call_session c) (call_tlookup c) (call_now c) (call_rnd c)))"

fun Saves :: "BoltStore \<Rightarrow> SaveCall list \<Rightarrow> BoltStore" where
  "Saves st [] = st"
| "Saves st (c # cs) = Saves (Save_call st c) cs"

definition demo_calls :: "SaveCall list" where
  "demo_calls =
     [\<lparr> call_request = \<lparr>cookies = [(''sid'', ''token-of-identifier'')]\<rparr>,
        call_session = demo_session, call_tlookup = 2000, call_now = 2000, call_rnd = ''SECONDID'' \<rparr>,
      \<lparr> call_request = \<lparr>cookies = [(''sid'', ''token-of-identifier'')]\<rparr>,
        call_session = demo_session, call_tlookup = 3000, call_now = 3000, call_rnd = ''THIRDID'' \<rparr>]"

section \<open>Properties of the collaborators and of the paths of Save\<close>

lemma find_Some_member:
  "find P xs = Some x \<Longrightarrow> x \<in> set xs \<and> P x"
  by (induction xs) (auto split: if_splits)

lemma FindOne_Inr:
  "FindOne query b = Inr (k, r) \<Longrightarrow> (k, r) \<in> set b \<and> query r"
  by (auto simp: FindOne_def split: option.splits dest: find_Some_member)

lemma find_None_all:
  "find P xs = None \<longleftrightarrow> (\<forall>x \<in> set xs. \<not> P x)"
  by (induction xs) auto

lemma FindOne_Inl:
  "FindOne query b = Inl e \<longleftrightarrow> e = ErrNotFound \<and> (\<forall>(k, r) \<in> set b. \<not> query r)"
proof (cases "FindOne query b")
  case (Inl e')
  then have "find (\<lambda>(k, r). query r) b = None" and "e' = ErrNotFound"
    by (auto simp: FindOne_def split: option.splits)
  with Inl show ?thesis
    by (auto simp: find_None_all)
next
  case (Inr kr)
  then have "find (\<lambda>(k, r). query r) b = Some kr"
    by (auto simp: FindOne_def split: option.splits)
  then have "kr \<in> set b \<and> (\<lambda>(k, r). query r) kr"
    by (rule find_Some_member)
  with Inr show ?thesis
    by auto
qed

lemma getSessionFromCookie_Some:
  assumes "getSessionFromCookie st r nm tnow = Some s"
  shows "\<exists>v stored. Cookie r nm = Inr v
           \<and> DecodeMulti as_string nm v (Codecs st) = Inr (Session s)
           \<and> (Session.ID s, stored) \<in> set (bucket (store st))
           \<and> s = stored\<lparr>Session.ID := Session.ID s\<rparr>
           \<and> tnow < ExpiresAt s"
  using assms
  by (auto simp: getSessionFromCookie_def split: sum.splits dest!: FindOne_Inr)

lemma getSessionFromCookie_key:
  "getSessionFromCookie st r nm tnow = Some s \<Longrightarrow> Session.ID s \<in> set (map fst (bucket (store st)))"
  by (drule getSessionFromCookie_Some) force

lemma getSessionFromCookie_live:
  "getSessionFromCookie st r nm tnow = Some s \<Longrightarrow> tnow < ExpiresAt s"
  by (drule getSessionFromCookie_Some) blast

lemma Save_negative_found:
  assumes "sint (MaxAge (sessions_Session.Options session)) < 0"
      and "getSessionFromCookie st r (name session) tlookup = Some s"
  shows "Save st r w session tlookup now rnd =
           (None,
            st\<lparr>store := (store st)\<lparr>bucket := filter (\<lambda>(k, old). k \<noteq> Session.ID s) (bucket (store st))\<rparr>\<rparr>,
            SetCookie w \<lparr> Name = name session, Value = [], Attributes = sessions_Session.Options session \<rparr>,
            session)"
  using assms getSessionFromCookie_key [OF assms(2)]
  by (simp add: Save_def Delete_def NewCookie_def)

lemma Save_negative_none:
  assumes "sint (MaxAge (sessions_Session.Options session)) < 0"
      and "getSessionFromCookie st r (name session) tlookup = None"
  shows "Save st r w session tlookup now rnd =
           (None, st,
            SetCookie w \<lparr> Name = name session, Value = [], Attributes = sessions_Session.Options session \<rparr>,
            session)"
  using assms by (simp add: Save_def NewCookie_def)

lemma Save_payload_error:
  assumes "\<not> sint (MaxAge (sessions_Session.Options session)) < 0"
      and "EncodeMulti (name session) (GobValues (Values session)) (Codecs st) = Inl e"
  shows "Save st r w session tlookup now rnd = (Some e, st, w, session)"
  using assms by (simp add: Save_def)

lemma Save_insert:
  assumes "\<not> sint (MaxAge (sessions_Session.Options session)) < 0"
      and "EncodeMulti (name session) (GobValues (Values session)) (Codecs st) = Inr data"
      and "getSessionFromCookie st r (name session) tlookup = None"
  shows "Save st r w session tlookup now rnd =
           (let session1 = session\<lparr>sessions_Session.ID := rnd\<rparr>;
                key = sequence (store st) + 1;
                s = \<lparr> Session.ID = 0, Session = rnd, Data = data, CreatedAt = now, UpdatedAt = now,
                      ExpiresAt = Add now (Second * MaxAge (sessions_Session.Options session)) \<rparr>
            in if key \<in> set (map fst (bucket (store st))) then (Some ErrKeyExists, st, w, session1)
               else finish_Save st ((store st)\<lparr>sequence := key, bucket := bucket (store st) @ [(key, s)]\<rparr>)
                      w session1 (s\<lparr>Session.ID := key\<rparr>))"
  using assms by (simp add: Save_def Insert_NextSequence_def Let_def)

lemma Save_update:
  assumes "\<not> sint (MaxAge (sessions_Session.Options session)) < 0"
      and "EncodeMulti (name session) (GobValues (Values session)) (Codecs st) = Inr data"
      and "getSessionFromCookie st r (name session) tlookup = Some s0"
  shows "Save st r w session tlookup now rnd =
           (let s = s0\<lparr>Data := data, UpdatedAt := now,
                        ExpiresAt := Add now (Second * MaxAge (sessions_Session.Options session))\<rparr>
            in finish_Save st
                 ((store st)\<lparr>bucket := map (\<lambda>(k, old). if k = Session.ID s0 then (k, s) else (k, old))
                                          (bucket (store st))\<rparr>)
                 w session s)"
  using assms getSessionFromCookie_key [OF assms(3)]
  by (simp add: Save_def Update_def Let_def)

lemma finish_Save_cases:
  "finish_Save st db w session s = (e, st1, w1, session1) \<Longrightarrow>
     st1 = st\<lparr>store := db\<rparr> \<and> session1 = session \<and>
     (case e of
        Some err \<Rightarrow> w1 = w \<and> EncodeMulti (name session) (GobUint (Session.ID s)) (Codecs st) = Inl err
      | None \<Rightarrow> \<exists>token. EncodeMulti (name session) (GobUint (Session.ID s)) (Codecs st) = Inr token
                 \<and> w1 = SetCookie w \<lparr> Name = name session, Value = token,
                                     Attributes = sessions_Session.Options session \<rparr>)"
  by (auto simp: finish_Save_def NewCookie_def split: sum.splits)

lemmas demo_defs = demo_store_def demo_session_def demo_options_def demo_book_def demo_record_def
  demo_store_saved_def book_codec_def

lemma BoltStore_MaxAge_same [simp]:
  "BoltStore_MaxAge st (MaxAge (BoltStore.Options st)) = st"
  by (simp add: BoltStore_MaxAge_def)

lemma New_without_record:
  "getSessionFromCookie st r nm tnow = None \<Longrightarrow>
     New st r nm tnow = (NewSession nm (BoltStore.Options st), None, st)"
  by (simp add: New_def NewSession_def)

lemma distinct_map_unique:
  "distinct (map f xs) \<Longrightarrow> x \<in> set xs \<Longrightarrow> y \<in> set xs \<Longrightarrow> f x = f y \<Longrightarrow> x = y"
  by (auto simp: distinct_map dest: inj_onD)

lemma getSessionFromCookie_None_if_all_expired:
  assumes "Cookie r nm = Inr v"
      and "DecodeMulti as_string nm v (Codecs st) = Inr sid"
      and "\<forall>(k, s) \<in> set (bucket (store st)). Session s = sid \<longrightarrow> ExpiresAt s \<le> tnow"
  shows "getSessionFromCookie st r nm tnow = None"
proof -
  have "\<forall>(k, s) \<in> set (bucket (store st)). \<not> (Session s = sid \<and> tnow < ExpiresAt s)"
    using assms(3) by fastforce
  then have "FindOne (\<lambda>s. Session s = sid \<and> tnow < ExpiresAt s) (bucket (store st)) = Inl ErrNotFound"
    by (simp add: FindOne_Inl)
  with assms(1,2) show ?thesis
    by (simp add: getSessionFromCookie_def)
qed

lemma Second_times:
  assumes "0 \<le> sint (m :: 64 word)" and "sint m \<le> 9223372036"
  shows "sint (Second * m) = 1000000000 * sint m"
proof -
  have "sint (Second * m) = signed_take_bit 63 (sint Second * sint m)"
    by (simp add: sint_word_mult)
  also have "sint Second = 1000000000"
    by (simp add: Second_def)
  also have "signed_take_bit 63 (1000000000 * sint m) = 1000000000 * sint m"
    using assms by (intro signed_take_bit_int_eq_self) simp_all
  finally show ?thesis .
qed

lemma Save_cookie_carries_key:
  assumes "Save st r w session tlookup now rnd = (None, st1, w1, session1)"
      and "\<not> sint (MaxAge (sessions_Session.Options session)) < 0"
  shows "\<exists>key token. key \<in> set (map fst (bucket (store st1)))
           \<and> EncodeMulti (name session) (GobUint key) (Codecs st) = Inr token
           \<and> w1 = SetCookie w \<lparr> Name = name session, Value = token,
                               Attributes = sessions_Session.Options session \<rparr>"
proof (cases "EncodeMulti (name session) (GobValues (Values session)) (Codecs st)")
  case (Inl e)
  with assms show ?thesis by (simp add: Save_payload_error)
next
  case (Inr data)
  show ?thesis
  proof (cases "getSessionFromCookie st r (name session) tlookup")
    case None
    from assms(1) show ?thesis
      unfolding Save_insert [OF assms(2) Inr None] Let_def
      by (auto split: if_splits dest!: finish_Save_cases)
  next
    case (Some s0)
    from assms(1) getSessionFromCookie_key [OF Some] show ?thesis
      unfolding Save_update [OF assms(2) Inr Some] Let_def
      by (force dest!: finish_Save_cases)
  qed
qed


section \<open>Round trip and the content of the cookie\<close>

lemma demo_Save:
  "Save demo_store \<lparr>cookies = []\<rparr> [] demo_session 1000 1000 ''RANDOMID'' =
     (None, demo_store_saved, [demo_cookie], demo_session\<lparr>sessions_Session.ID := ''RANDOMID''\<rparr>)"
  by (simp add: Save_def getSessionFromCookie_def Cookie_def EncodeMulti_def Insert_NextSequence_def
        finish_Save_def SetCookie_def isCookieNameValid_def isTokenRune_def NewCookie_def Add_def Second_def demo_cookie_def demo_defs)

lemma demo_New:
  "New demo_store_saved \<lparr>cookies = [(Name demo_cookie, Value demo_cookie)]\<rparr> ''sid'' 1000 =
     (NewSession ''sid'' demo_options, None, demo_store_saved)"
  by (simp add: New_def getSessionFromCookie_def Cookie_def DecodeMulti_def BoltStore_MaxAge_def
        NewSession_def demo_cookie_def demo_defs)

text \<open>
  Claim C1 (round trip): for every session with values V and a non-negative max-age,
  \<open>Save\<close> followed by \<open>New\<close> on a request carrying the cookie that \<open>Save\<close> attached yields
  a session with \<open>IsNew = false\<close> and values equal to V.

  The code does not do this. A first visit with the values \<open>user = alice\<close> and a max-age of
  one hour is saved without error: the record is stored under sequence key 1 and the cookie
  is set. \<open>New\<close> on a request that carries exactly this cookie, at the same instant, returns
  the fresh session: \<open>IsNew\<close> is true and the values are empty. The cookie holds the token
  of the unsigned key, and \<open>getSessionFromCookie\<close> decodes the cookie into a string.
\<close>

theorem Save_then_New_loses_the_session:
  "Save demo_store \<lparr>cookies = []\<rparr> [] demo_session 1000 1000 ''RANDOMID'' =
     (None, demo_store_saved, [demo_cookie], demo_session\<lparr>sessions_Session.ID := ''RANDOMID''\<rparr>)
   \<and> New demo_store_saved \<lparr>cookies = [(Name demo_cookie, Value demo_cookie)]\<rparr> ''sid'' 1000 =
       (NewSession ''sid'' demo_options, None, demo_store_saved)
   \<and> IsNew (NewSession ''sid'' demo_options)
   \<and> Values (NewSession ''sid'' demo_options) = []
   \<and> Values demo_session = [(''user'', VString ''alice'')]"
  using demo_Save demo_New by (simp add: NewSession_def demo_session_def)

text \<open>
  Claim C2 (content of the cookie): the cookie value written by \<open>Save\<close> encodes exactly one
  field, the opaque session identifier, and the sequence key of a record is never placed in
  the cookie.

  The code places the sequence key in the cookie. After the first save above, the record
  with the identifier \<open>RANDOMID\<close> lies under key 1; the value of the cookie is the token
  that the codec decodes to the unsigned number 1, and it is not the token of the identifier.
\<close>

theorem Save_puts_the_sequence_key_in_the_cookie:
  "Save demo_store \<lparr>cookies = []\<rparr> [] demo_session 1000 1000 ''RANDOMID'' =
     (None, demo_store_saved, [demo_cookie], demo_session\<lparr>sessions_Session.ID := ''RANDOMID''\<rparr>)
   \<and> Get 1 (bucket (store demo_store_saved)) = Inr demo_record
   \<and> Session demo_record = ''RANDOMID''
   \<and> Decode (book_codec demo_book) ''sid'' (Value demo_cookie) = Some (GobUint 1)
   \<and> EncodeMulti ''sid'' (GobString ''RANDOMID'') (Codecs demo_store) = Inr ''token-of-identifier''
   \<and> Value demo_cookie \<noteq> ''token-of-identifier''"
  using demo_Save by (simp add: Get_def EncodeMulti_def demo_cookie_def demo_defs)

section \<open>Expiry at lookup\<close>

text \<open>
  Claim C3 (expiry enforcement): for every record whose \<open>ExpiresAt\<close> is not after the lookup
  time, the lookup by identifier never returns that record, swept or not, and \<open>New\<close> on a
  request carrying that record's identifier returns a session with \<open>IsNew = true\<close>.

  The identifier names the record: identifiers in the bucket are pairwise distinct (they
  are 32 random bytes each; the model takes them as an input of \<open>Save\<close>).
\<close>

theorem expired_record_is_never_resumed:
  assumes "(key, rec) \<in> set (bucket (store st))"
      and "ExpiresAt rec \<le> tnow"
  shows "getSessionFromCookie st r' nm' tnow \<noteq> Some (rec\<lparr>Session.ID := key\<rparr>)
       \<and> (distinct (map (\<lambda>(k, s). Session s) (bucket (store st)))
            \<and> Cookie r nm = Inr v
            \<and> DecodeMulti as_string nm v (Codecs st) = Inr (Session rec)
          \<longrightarrow> New st r nm tnow = (NewSession nm (BoltStore.Options st), None, st))"
proof (intro conjI impI)
  show "getSessionFromCookie st r' nm' tnow \<noteq> Some (rec\<lparr>Session.ID := key\<rparr>)"
  proof
    assume "getSessionFromCookie st r' nm' tnow = Some (rec\<lparr>Session.ID := key\<rparr>)"
    then have "tnow < ExpiresAt (rec\<lparr>Session.ID := key\<rparr>)"
      by (rule getSessionFromCookie_live)
    with assms(2) show False by simp
  qed
next
  assume h: "distinct (map (\<lambda>(k, s). Session s) (bucket (store st)))
            \<and> Cookie r nm = Inr v
            \<and> DecodeMulti as_string nm v (Codecs st) = Inr (Session rec)"
  have "\<forall>(k, s) \<in> set (bucket (store st)). Session s = Session rec \<longrightarrow> ExpiresAt s \<le> tnow"
  proof (clarify)
    fix k s
    assume "(k, s) \<in> set (bucket (store st))" and "Session s = Session rec"
    with h assms(1) have "(k, s) = (key, rec)"
      using distinct_map_unique [of "\<lambda>(k, s). Session s" "bucket (store st)" "(k, s)" "(key, rec)"]
      by simp
    with assms(2) show "ExpiresAt s \<le> tnow" by simp
  qed
  with h have "getSessionFromCookie st r nm tnow = None"
    by (blast intro: getSessionFromCookie_None_if_all_expired)
  then show "New st r nm tnow = (NewSession nm (BoltStore.Options st), None, st)"
    by (rule New_without_record)
qed

theorem expired_record_is_never_resumed_witness:
  "(1, demo_record) \<in> set (bucket (store demo_store_saved))
   \<and> ExpiresAt demo_record \<le> 3600000001000
   \<and> distinct (map (\<lambda>(k, s). Session s) (bucket (store demo_store_saved)))
   \<and> Cookie \<lparr>cookies = [(''sid'', ''token-of-identifier'')]\<rparr> ''sid'' = Inr ''token-of-identifier''
   \<and> DecodeMulti as_string ''sid'' ''token-of-identifier'' (Codecs demo_store_saved) = Inr (Session demo_record)
   \<and> getSessionFromCookie demo_store_saved \<lparr>cookies = [(''sid'', ''token-of-identifier'')]\<rparr> ''sid'' 3600000001000
        \<noteq> Some (demo_record\<lparr>Session.ID := 1\<rparr>)
   \<and> New demo_store_saved \<lparr>cookies = [(''sid'', ''token-of-identifier'')]\<rparr> ''sid'' 3600000001000
        = (NewSession ''sid'' demo_options, None, demo_store_saved)"
proof -
  have a: "(1, demo_record) \<in> set (bucket (store demo_store_saved))"
    by (simp add: demo_defs)
  have b: "ExpiresAt demo_record \<le> 3600000001000"
    by (simp add: demo_defs)
  have c: "distinct (map (\<lambda>(k, s). Session s) (bucket (store demo_store_saved)))
           \<and> Cookie \<lparr>cookies = [(''sid'', ''token-of-identifier'')]\<rparr> ''sid'' = Inr ''token-of-identifier''
           \<and> DecodeMulti as_string ''sid'' ''token-of-identifier'' (Codecs demo_store_saved) = Inr (Session demo_record)"
    by (simp add: demo_defs Cookie_def DecodeMulti_def)
  have d: "BoltStore.Options demo_store_saved = demo_options"
    by (simp add: demo_defs)
  show ?thesis
    using a b c d
      expired_record_is_never_resumed [OF a b,
        of "\<lparr>cookies = [(''sid'', ''token-of-identifier'')]\<rparr>" "''sid''"
           "\<lparr>cookies = [(''sid'', ''token-of-identifier'')]\<rparr>" "''sid''" "''token-of-identifier''"]
    by simp
qed

section \<open>Insert or update\<close>

lemma map_fst_replace:
  "map fst (map (\<lambda>(k, old). if k = key then (k, r) else (k, old)) b) = map fst b"
  by (induction b) auto



lemma demo_lookup:
  "getSessionFromCookie demo_store_saved \<lparr>cookies = [(''sid'', ''token-of-identifier'')]\<rparr>
     (name demo_session) 2000 = Some (demo_record\<lparr>Session.ID := 1\<rparr>)"
  by (simp add: getSessionFromCookie_def Cookie_def DecodeMulti_def FindOne_def demo_defs)

lemma demo_second_Save:
  "Save demo_store_saved \<lparr>cookies = [(''sid'', ''token-of-identifier'')]\<rparr> [] demo_session 2000 2000 ''OTHERID'' =
     (None,
      demo_store\<lparr>store := \<lparr> sequence = 1,
                             bucket = [(1, demo_record\<lparr>Session.ID := 1, UpdatedAt := 2000,
                                                        ExpiresAt := 3600000002000\<rparr>)] \<rparr>\<rparr>,
      [demo_cookie], demo_session)"
  by (simp add: Save_def getSessionFromCookie_def Cookie_def DecodeMulti_def FindOne_def
        EncodeMulti_def Update_def finish_Save_def SetCookie_def isCookieNameValid_def isTokenRune_def NewCookie_def Add_def Second_def
        demo_cookie_def demo_defs)


section \<open>Logout\<close>

text \<open>
  With a negative max-age, \<open>Save\<close> of the store with sequence keys deletes the record its
  lookup found, if it found one, hands a cookie with an empty value and the options of the
  session to \<open>SetCookie\<close> (which adds it when the name of the session is a valid cookie
  name), and returns no error.
\<close>

lemma Save_logout:
  assumes "sint (MaxAge (sessions_Session.Options session)) < 0"
  shows "Save st r w session tlookup now rnd =
           (None,
            st\<lparr>store := (store st)\<lparr>bucket :=
                  (case getSessionFromCookie st r (name session) tlookup of
                     None \<Rightarrow> bucket (store st)
                   | Some s \<Rightarrow> filter (\<lambda>(k, old). k \<noteq> Session.ID s) (bucket (store st)))\<rparr>\<rparr>,
            SetCookie w \<lparr> Name = name session, Value = [], Attributes = sessions_Session.Options session \<rparr>,
            session)"
  using assms
  by (cases "getSessionFromCookie st r (name session) tlookup")
     (simp_all add: Save_negative_none Save_negative_found)


text \<open>
  Claim C4 (logout): for every \<open>Save\<close> with a negative max-age, a record that exists for the
  identifier of the request's cookie is deleted, a cookie with an empty value and the same
  negative max-age is written to the response, and \<open>Save\<close> returns no error when no record
  existed.

  The first-generation \<open>Save\<close> returns an error when no record existed. A request carries a
  valid cookie whose record is gone: \<open>New_v1\<close> passes over the missing record and returns
  the session with the identifier of the cookie. The application sets the max-age to -1 and
  saves: \<open>delete_v1\<close> hands the \<open>ErrNotFound\<close> of the bucket through, \<open>Save_v1\<close> returns it
  and no cookie is written.
\<close>

theorem Save_v1_logout_without_record_fails:
  "New_v1 demo_store_v1 \<lparr>cookies = [(''sid'', ''token-of-identifier'')]\<rparr> ''sid'' =
     ((NewSession ''sid'' demo_options)\<lparr>sessions_Session.ID := ''RANDOMID''\<rparr>, None)
   \<and> Save_v1 demo_store_v1 []
        ((NewSession ''sid'' demo_options)
           \<lparr>sessions_Session.ID := ''RANDOMID'', sessions_Session.Options := demo_options\<lparr>MaxAge := - 1\<rparr>\<rparr>)
        1000 ''OTHERID'' =
     (Some ErrNotFound, demo_store_v1, [],
      (NewSession ''sid'' demo_options)
         \<lparr>sessions_Session.ID := ''RANDOMID'', sessions_Session.Options := demo_options\<lparr>MaxAge := - 1\<rparr>\<rparr>)"
  by (simp add: New_v1_def Save_v1_def load_v1_def delete_v1_def Get_def Delete_def Cookie_def
        DecodeMulti_def NewSession_def demo_store_v1_def demo_defs)


section \<open>Sweeping\<close>

text \<open>
  Claim C7 (sweep): a sweep removes every record whose \<open>ExpiresAt\<close> is less than or equal to
  the current time, and sweeping is idempotent: a second sweep right after the first, with no
  record newly expired in between, removes nothing.

  After \<open>Cleanup\<close> the bucket holds exactly the records that expire later than the time of
  the sweep, in their order; a second sweep at the same time, or at a later time by which none
  of the remaining records has expired, leaves the store as the first sweep left it.
\<close>

theorem Cleanup_sweeps_expired_records_once:
  "bucket (store (Cleanup st tnow)) = filter (\<lambda>(k, s). tnow < ExpiresAt s) (bucket (store st))
   \<and> Cleanup (Cleanup st tnow) tnow = Cleanup st tnow
   \<and> ((\<forall>(k, s) \<in> set (bucket (store (Cleanup st tnow))). tlater < ExpiresAt s) \<longrightarrow>
        Cleanup (Cleanup st tnow) tlater = Cleanup st tnow)"
proof (intro conjI impI)
  have shape: "(\<lambda>(k, s). \<not> ExpiresAt s \<le> t) = (\<lambda>(k, s). t < ExpiresAt s)" for t :: time
    by (auto simp: fun_eq_iff)
  show first: "bucket (store (Cleanup st tnow)) = filter (\<lambda>(k, s). tnow < ExpiresAt s) (bucket (store st))"
    by (simp add: Cleanup_def DeleteMatching_def shape)
  show "Cleanup (Cleanup st tnow) tnow = Cleanup st tnow"
    by (simp add: Cleanup_def DeleteMatching_def)
  show "Cleanup (Cleanup st tnow) tlater = Cleanup st tnow"
    if "\<forall>(k, s) \<in> set (bucket (store (Cleanup st tnow))). tlater < ExpiresAt s"
  proof -
    from that
    have "filter (\<lambda>(k, s). \<not> ExpiresAt s \<le> tlater) (bucket (store (Cleanup st tnow)))
            = bucket (store (Cleanup st tnow))"
      by (intro filter_True) auto
    then show ?thesis
      by (simp add: Cleanup_def DeleteMatching_def)
  qed
qed

theorem Cleanup_sweeps_expired_records_once_witness:
  "bucket (store demo_store_two) = [(1, demo_expired_record), (2, demo_record)]
   \<and> ExpiresAt demo_expired_record \<le> 2000
   \<and> bucket (store (Cleanup demo_store_two 2000)) = [(2, demo_record)]
   \<and> 3000 < ExpiresAt demo_record
   \<and> Cleanup (Cleanup demo_store_two 2000) 3000 = Cleanup demo_store_two 2000"
proof -
  have sweep: "bucket (store (Cleanup demo_store_two 2000)) = [(2, demo_record)]"
    by (simp add: Cleanup_def DeleteMatching_def demo_store_two_def demo_expired_record_def demo_defs)
  have live: "\<forall>(k, s) \<in> set (bucket (store (Cleanup demo_store_two 2000))). 3000 < ExpiresAt s"
    unfolding sweep by (simp add: demo_defs)
  have facts: "bucket (store demo_store_two) = [(1, demo_expired_record), (2, demo_record)]
      \<and> ExpiresAt demo_expired_record \<le> 2000 \<and> 3000 < ExpiresAt demo_record"
    by (simp add: demo_store_two_def demo_expired_record_def demo_defs)
  from Cleanup_sweeps_expired_records_once [of demo_store_two 2000 3000] live sweep facts
  show ?thesis by simp
qed


section \<open>Requests that resume nothing\<close>

lemma getSessionFromCookie_no_cookie:
  "Cookie r nm = Inl e \<Longrightarrow> getSessionFromCookie st r nm tnow = None"
  by (simp add: getSessionFromCookie_def)

lemma getSessionFromCookie_bad_cookie:
  "Cookie r nm = Inr v \<Longrightarrow> DecodeMulti as_string nm v (Codecs st) = Inl e \<Longrightarrow>
     getSessionFromCookie st r nm tnow = None"
  by (simp add: getSessionFromCookie_def)

lemma Get_missing:
  "key \<notin> set (map fst b) \<Longrightarrow> Get key b = Inl ErrNotFound"
  by (simp add: Get_def map_of_eq_None_iff [THEN iffD2])


text \<open>
  Claim C8 (silent fallback): for every request whose session cookie is absent, fails
  decoding, or refers to an absent or expired record, \<open>New\<close> returns a fresh session with
  \<open>IsNew = true\<close> and no identifier, and does not surface an error to the caller.

  As amended: this is what \<open>New\<close> of the store with sequence keys does in the three cases.
  The first-generation \<open>New_v1\<close> returns a session with \<open>IsNew = true\<close> in all of them as
  well; it returns the error of an absent cookie or of a failed decoding to the caller, and for
  an absent record it returns no error and a session that carries the decoded identifier.
\<close>

theorem New_degrades_to_a_fresh_session:
  "(Cookie r1 nm = Inl e1 \<longrightarrow>
      New st r1 nm tnow = (NewSession nm (BoltStore.Options st), None, st)
      \<and> New_v1 m r1 nm = (NewSession nm (Options_v1 m), Some e1))
   \<and> (Cookie r2 nm = Inr v2 \<and> DecodeMulti as_string nm v2 (Codecs st) = Inl e2 \<longrightarrow>
      New st r2 nm tnow = (NewSession nm (BoltStore.Options st), None, st))
   \<and> (Cookie r2 nm = Inr v2 \<and> DecodeMulti as_string nm v2 (Codecs_v1 m) = Inl e2 \<longrightarrow>
      New_v1 m r2 nm = (NewSession nm (Options_v1 m), Some e2))
   \<and> (Cookie r3 nm = Inr v3 \<and> DecodeMulti as_string nm v3 (Codecs st) = Inr sid
        \<and> (\<forall>(k, s) \<in> set (bucket (store st)). Session s = sid \<longrightarrow> ExpiresAt s \<le> tnow) \<longrightarrow>
      New st r3 nm tnow = (NewSession nm (BoltStore.Options st), None, st))
   \<and> (Cookie r3 nm = Inr v3 \<and> DecodeMulti as_string nm v3 (Codecs_v1 m) = Inr sid
        \<and> sid \<notin> set (map fst (store_v1 m)) \<longrightarrow>
      New_v1 m r3 nm = ((NewSession nm (Options_v1 m))\<lparr>sessions_Session.ID := sid\<rparr>, None))"
proof (intro conjI impI)
  show "New st r1 nm tnow = (NewSession nm (BoltStore.Options st), None, st)"
    if "Cookie r1 nm = Inl e1"
    using that by (intro New_without_record getSessionFromCookie_no_cookie)
  show "New_v1 m r1 nm = (NewSession nm (Options_v1 m), Some e1)"
    if "Cookie r1 nm = Inl e1"
    using that by (simp add: New_v1_def)
  show "New st r2 nm tnow = (NewSession nm (BoltStore.Options st), None, st)"
    if "Cookie r2 nm = Inr v2 \<and> DecodeMulti as_string nm v2 (Codecs st) = Inl e2"
    using that by (blast intro: New_without_record getSessionFromCookie_bad_cookie)
  show "New_v1 m r2 nm = (NewSession nm (Options_v1 m), Some e2)"
    if "Cookie r2 nm = Inr v2 \<and> DecodeMulti as_string nm v2 (Codecs_v1 m) = Inl e2"
    using that by (simp add: New_v1_def)
  show "New st r3 nm tnow = (NewSession nm (BoltStore.Options st), None, st)"
    if "Cookie r3 nm = Inr v3 \<and> DecodeMulti as_string nm v3 (Codecs st) = Inr sid
        \<and> (\<forall>(k, s) \<in> set (bucket (store st)). Session s = sid \<longrightarrow> ExpiresAt s \<le> tnow)"
    using that by (blast intro: New_without_record getSessionFromCookie_None_if_all_expired)
  show "New_v1 m r3 nm = ((NewSession nm (Options_v1 m))\<lparr>sessions_Session.ID := sid\<rparr>, None)"
    if "Cookie r3 nm = Inr v3 \<and> DecodeMulti as_string nm v3 (Codecs_v1 m) = Inr sid
        \<and> sid \<notin> set (map fst (store_v1 m))"
    using that by (simp add: New_v1_def load_v1_def Get_missing NewSession_def)
qed

theorem New_degrades_to_a_fresh_session_witness:
  "Cookie \<lparr>cookies = []\<rparr> ''sid'' = Inl ErrNoCookie
   \<and> New demo_store_saved \<lparr>cookies = []\<rparr> ''sid'' 3600000001000
       = (NewSession ''sid'' demo_options, None, demo_store_saved)
   \<and> New_v1 demo_store_v1 \<lparr>cookies = []\<rparr> ''sid'' = (NewSession ''sid'' demo_options, Some ErrNoCookie)
   \<and> Cookie \<lparr>cookies = [(''sid'', ''token-of-identifie?'')]\<rparr> ''sid'' = Inr ''token-of-identifie?''
   \<and> DecodeMulti as_string ''sid'' ''token-of-identifie?'' [book_codec demo_book] = Inl ErrMulti
   \<and> New demo_store_saved \<lparr>cookies = [(''sid'', ''token-of-identifie?'')]\<rparr> ''sid'' 3600000001000
       = (NewSession ''sid'' demo_options, None, demo_store_saved)
   \<and> New_v1 demo_store_v1 \<lparr>cookies = [(''sid'', ''token-of-identifie?'')]\<rparr> ''sid''
       = (NewSession ''sid'' demo_options, Some ErrMulti)
   \<and> Cookie \<lparr>cookies = [(''sid'', ''token-of-identifier'')]\<rparr> ''sid'' = Inr ''token-of-identifier''
   \<and> DecodeMulti as_string ''sid'' ''token-of-identifier'' [book_codec demo_book] = Inr ''RANDOMID''
   \<and> bucket (store demo_store_saved) = [(1, demo_record)]
   \<and> ExpiresAt demo_record \<le> 3600000001000
   \<and> New demo_store_saved \<lparr>cookies = [(''sid'', ''token-of-identifier'')]\<rparr> ''sid'' 3600000001000
       = (NewSession ''sid'' demo_options, None, demo_store_saved)
   \<and> store_v1 demo_store_v1 = []
   \<and> New_v1 demo_store_v1 \<lparr>cookies = [(''sid'', ''token-of-identifier'')]\<rparr> ''sid''
       = ((NewSession ''sid'' demo_options)\<lparr>sessions_Session.ID := ''RANDOMID''\<rparr>, None)"
proof -
  have c1: "Cookie \<lparr>cookies = []\<rparr> ''sid'' = Inl ErrNoCookie"
    by (simp add: Cookie_def)
  have c2: "Cookie \<lparr>cookies = [(''sid'', ''token-of-identifie?'')]\<rparr> ''sid'' = Inr ''token-of-identifie?''
       \<and> DecodeMulti as_string ''sid'' ''token-of-identifie?'' [book_codec demo_book] = Inl ErrMulti"
    by (simp add: Cookie_def DecodeMulti_def demo_defs)
  have c3: "Cookie \<lparr>cookies = [(''sid'', ''token-of-identifier'')]\<rparr> ''sid'' = Inr ''token-of-identifier''
       \<and> DecodeMulti as_string ''sid'' ''token-of-identifier'' [book_codec demo_book] = Inr ''RANDOMID''"
    by (simp add: Cookie_def DecodeMulti_def demo_defs)
  have c4: "\<forall>(k, s) \<in> set (bucket (store demo_store_saved)).
              Session s = ''RANDOMID'' \<longrightarrow> ExpiresAt s \<le> 3600000001000"
    by (simp add: demo_defs)
  have c5: "ExpiresAt demo_record \<le> 3600000001000 \<and> ''RANDOMID'' \<notin> set (map fst (store_v1 demo_store_v1))
       \<and> bucket (store demo_store_saved) = [(1, demo_record)] \<and> store_v1 demo_store_v1 = []"
    by (simp add: demo_store_v1_def demo_defs)
  have c6: "Codecs demo_store_saved = [book_codec demo_book] \<and> Codecs_v1 demo_store_v1 = [book_codec demo_book]
       \<and> BoltStore.Options demo_store_saved = demo_options \<and> Options_v1 demo_store_v1 = demo_options"
    by (simp add: demo_store_v1_def demo_store_saved_def demo_store_def)
  from New_degrades_to_a_fresh_session
         [of "\<lparr>cookies = []\<rparr>" "''sid''" ErrNoCookie demo_store_saved 3600000001000 demo_store_v1
             "\<lparr>cookies = [(''sid'', ''token-of-identifie?'')]\<rparr>" "''token-of-identifie?''" ErrMulti
             "\<lparr>cookies = [(''sid'', ''token-of-identifier'')]\<rparr>" "''token-of-identifier''" "''RANDOMID''"]
       c1 c2 c3 c4 c5 c6
  show ?thesis
    by simp
qed


text \<open>
  Against C8 as stated: \<open>New_v1\<close> on a request with no cookie, and on a request whose cookie
  differs from a valid token in its last byte, returns the fresh session together with an error.
\<close>

theorem New_v1_reports_the_cookie_error:
  "New_v1 demo_store_v1 \<lparr>cookies = []\<rparr> ''sid'' = (NewSession ''sid'' demo_options, Some ErrNoCookie)
   \<and> New_v1 demo_store_v1 \<lparr>cookies = [(''sid'', ''token-of-identifie?'')]\<rparr> ''sid''
       = (NewSession ''sid'' demo_options, Some ErrMulti)"
  by (simp add: New_v1_def Cookie_def DecodeMulti_def NewSession_def demo_store_v1_def demo_defs)


section \<open>Lookups in a bucket after an update or an insert\<close>

lemma map_of_replace_hit:
  "key \<in> set (map fst b) \<Longrightarrow>
     map_of (map (\<lambda>(k, old). if k = key then (k, r) else (k, old)) b) key = Some r"
  by (induction b) auto

lemma map_of_replace_miss:
  "k' \<noteq> key \<Longrightarrow>
     map_of (map (\<lambda>(k, old). if k = key then (k, r) else (k, old)) b) k' = map_of b k'"
  by (induction b) auto

lemma replace_others:
  "(k', x) \<in> set (map (\<lambda>(k, old). if k = key then (k, r) else (k, old)) b) \<Longrightarrow> k' \<noteq> key \<Longrightarrow>
     (k', x) \<in> set b"
  by (induction b) (auto split: if_splits)

lemma map_of_append_new:
  "key \<notin> set (map fst b) \<Longrightarrow> map_of (b @ [(key, r)]) key = Some r"
  by (induction b) auto

lemma map_of_append_old:
  "k' \<noteq> key \<Longrightarrow> map_of (b @ [(key, r)]) k' = map_of b k'"
  by (induction b) auto

section \<open>Repeated saves\<close>

lemma Save_update_store:
  assumes "\<not> sint (MaxAge (sessions_Session.Options session)) < 0"
      and "EncodeMulti (name session) (GobValues (Values session)) (Codecs st) = Inr data"
      and "getSessionFromCookie st r (name session) tlookup = Some s0"
      and "Save st r w session tlookup now rnd = (e, st1, w1, session1)"
  shows "st1 = st\<lparr>store := (store st)\<lparr>bucket :=
           map (\<lambda>(k, old).
                  if k = Session.ID s0
                  then (k, s0\<lparr>Data := data, UpdatedAt := now,
                               ExpiresAt := Add now (Second * MaxAge (sessions_Session.Options session))\<rparr>)
                  else (k, old))
             (bucket (store st))\<rparr>\<rparr>"
  using assms(4) unfolding Save_update [OF assms(1,2,3)] Let_def
  by (auto dest!: finish_Save_cases)

lemma Save_insert_store:
  assumes "\<not> sint (MaxAge (sessions_Session.Options session)) < 0"
      and "EncodeMulti (name session) (GobValues (Values session)) (Codecs st) = Inr data"
      and "getSessionFromCookie st r (name session) tlookup = None"
      and "Save st r w session tlookup now rnd = (e, st1, w1, session1)"
  shows "st1 = st
       \<or> sequence (store st) + 1 \<notin> set (map fst (bucket (store st)))
         \<and> st1 = st\<lparr>store := (store st)\<lparr>sequence := sequence (store st) + 1,
              bucket := bucket (store st) @
                [(sequence (store st) + 1,
                  \<lparr> Session.ID = 0, Session = rnd, Data = data, CreatedAt = now, UpdatedAt = now,
                    ExpiresAt = Add now (Second * MaxAge (sessions_Session.Options session)) \<rparr>)]\<rparr>\<rparr>"
  using assms(4) unfolding Save_insert [OF assms(1,2,3)] Let_def
  by (auto split: if_splits dest!: finish_Save_cases)

lemma Save_keeps_keys_distinct:
  assumes "distinct (map fst (bucket (store st)))"
      and "Save st r w session tlookup now rnd = (e, st1, w1, session1)"
  shows "distinct (map fst (bucket (store st1)))"
proof (cases "sint (MaxAge (sessions_Session.Options session)) < 0")
  case True
  from assms show ?thesis
    unfolding Save_logout [OF True]
    by (auto simp: distinct_map_filter split: option.splits)
next
  case nonneg: False
  show ?thesis
  proof (cases "EncodeMulti (name session) (GobValues (Values session)) (Codecs st)")
    case (Inl e')
    with assms nonneg show ?thesis by (simp add: Save_payload_error)
  next
    case (Inr data)
    show ?thesis
    proof (cases "getSessionFromCookie st r (name session) tlookup")
      case None
      from Save_insert_store [OF nonneg Inr None assms(2)] assms(1) show ?thesis
        by auto
    next
      case (Some s0)
      show ?thesis
        unfolding Save_update_store [OF nonneg Inr Some assms(2)]
        using assms(1) by (simp add: map_fst_replace del: map_map)
    qed
  qed
qed

lemma Save_keeps_identity:
  assumes "distinct (map fst (bucket (store st)))"
      and "\<not> sint (MaxAge (sessions_Session.Options session)) < 0"
      and "Get key (bucket (store st)) = Inr rec"
      and "Save st r w session tlookup now rnd = (e, st1, w1, session1)"
  shows "\<exists>rec'. Get key (bucket (store st1)) = Inr rec'
           \<and> Session rec' = Session rec \<and> CreatedAt rec' = CreatedAt rec"
proof -
  from assms(3) have here: "map_of (bucket (store st)) key = Some rec"
    by (simp add: Get_def split: option.splits)
  show ?thesis
  proof (cases "EncodeMulti (name session) (GobValues (Values session)) (Codecs st)")
    case (Inl e')
    with assms show ?thesis by (simp add: Save_payload_error)
  next
    case (Inr data)
    show ?thesis
    proof (cases "getSessionFromCookie st r (name session) tlookup")
      case None
      from here have old: "key \<in> set (map fst (bucket (store st)))"
        by (force dest: map_of_SomeD)
      from Save_insert_store [OF assms(2) Inr None assms(4)] show ?thesis
      proof
        assume "st1 = st"
        with assms(3) show ?thesis by simp
      next
        assume new: "sequence (store st) + 1 \<notin> set (map fst (bucket (store st)))
          \<and> st1 = st\<lparr>store := (store st)\<lparr>sequence := sequence (store st) + 1,
              bucket := bucket (store st) @
                [(sequence (store st) + 1,
                  \<lparr> Session.ID = 0, Session = rnd, Data = data, CreatedAt = now, UpdatedAt = now,
                    ExpiresAt = Add now (Second * MaxAge (sessions_Session.Options session)) \<rparr>)]\<rparr>\<rparr>"
        with old have "key \<noteq> sequence (store st) + 1"
          by blast
        with new here have "Get key (bucket (store st1)) = Inr rec"
          by (simp add: Get_def map_of_append_old del: map_of_append)
        then show ?thesis by blast
      qed
    next
      case (Some s0)
      let ?s = "s0\<lparr>Data := data, UpdatedAt := now,
                    ExpiresAt := Add now (Second * MaxAge (sessions_Session.Options session))\<rparr>"
      note st1 = Save_update_store [OF assms(2) Inr Some assms(4)]
      show ?thesis
      proof (cases "key = Session.ID s0")
        case True
        from getSessionFromCookie_Some [OF Some] obtain stored
          where stored: "(Session.ID s0, stored) \<in> set (bucket (store st))"
                        "s0 = stored\<lparr>Session.ID := Session.ID s0\<rparr>"
          by blast
        from stored(1) assms(1) here True have "stored = rec"
          by simp
        with stored(2) have same: "Session ?s = Session rec \<and> CreatedAt ?s = CreatedAt rec"
          by (metis Session.select_convs(2,4) Session.surjective Session.update_convs(1,3,5,6))
        have "Get key (bucket (store st1)) = Inr ?s"
          unfolding st1 using True getSessionFromCookie_key [OF Some]
          by (simp add: Get_def map_of_replace_hit)
        with same show ?thesis by blast
      next
        case False
        have "Get key (bucket (store st1)) = Inr rec"
          unfolding st1 using False here
          by (simp add: Get_def map_of_replace_miss)
        then show ?thesis by blast
      qed
    qed
  qed
qed

lemma Save_call_keeps_keys_distinct:
  assumes "distinct (map fst (bucket (store st)))"
  shows "distinct (map fst (bucket (store (Save_call st c))))"
proof -
  obtain e st1 w1 session1
    where run: "Save st (call_request c) [] (call_session c) (call_tlookup c) (call_now c) (call_rnd c)
                  = (e, st1, w1, session1)"
    by (rule prod_cases4)
  then have "Save_call st c = st1"
    by (simp add: Save_call_def)
  with Save_keeps_keys_distinct [OF assms run] show ?thesis
    by simp
qed

lemma Save_call_keeps_identity:
  assumes "distinct (map fst (bucket (store st)))"
      and "\<not> sint (MaxAge (sessions_Session.Options (call_session c))) < 0"
      and "Get key (bucket (store st)) = Inr rec"
  shows "\<exists>rec'. Get key (bucket (store (Save_call st c))) = Inr rec'
           \<and> Session rec' = Session rec \<and> CreatedAt rec' = CreatedAt rec"
proof -
  obtain e st1 w1 session1
    where run: "Save st (call_request c) [] (call_session c) (call_tlookup c) (call_now c) (call_rnd c)
                  = (e, st1, w1, session1)"
    by (rule prod_cases4)
  then have "Save_call st c = st1"
    by (simp add: Save_call_def)
  with Save_keeps_identity [OF assms run] show ?thesis
    by simp
qed


text \<open>
  Claim C5 (identifier stability): across every sequence of repeated \<open>Save\<close> calls on the
  same resumed session, the session identifier of the stored record never changes; only the
  payload, \<open>UpdatedAt\<close> and \<open>ExpiresAt\<close> change, \<open>CreatedAt\<close> and the storage key are kept.

  It holds for every run of \<open>Save\<close> calls with non-negative max-ages, whatever their requests:
  a record stored under a key is still stored under that key after the run, with the identifier
  and the creation time it had. The keys of a bucket are distinct.
\<close>

theorem repeated_Save_keeps_the_identifier:
  assumes "distinct (map fst (bucket (store st)))"
      and "\<forall>c \<in> set calls. \<not> sint (MaxAge (sessions_Session.Options (call_session c))) < 0"
      and "Get key (bucket (store st)) = Inr rec"
  shows "\<exists>rec'. Get key (bucket (store (Saves st calls))) = Inr rec'
           \<and> Session rec' = Session rec \<and> CreatedAt rec' = CreatedAt rec"
  using assms
proof (induction calls arbitrary: st rec)
  case Nil
  then show ?case by simp
next
  case (Cons c calls)
  from Cons.prems have nonneg: "\<not> sint (MaxAge (sessions_Session.Options (call_session c))) < 0"
    by simp
  from Save_call_keeps_identity [OF Cons.prems(1) nonneg Cons.prems(3)]
  obtain mid where mid: "Get key (bucket (store (Save_call st c))) = Inr mid"
      "Session mid = Session rec" "CreatedAt mid = CreatedAt rec"
    by blast
  from Cons.prems(2) have rest: "\<forall>c \<in> set calls. \<not> sint (MaxAge (sessions_Session.Options (call_session c))) < 0"
    by simp
  from Cons.IH [OF Save_call_keeps_keys_distinct [OF Cons.prems(1)] rest mid(1)] mid(2,3)
  show ?case by simp
qed

lemma demo_Saves:
  "Saves demo_store_saved demo_calls =
     demo_store\<lparr>store := \<lparr> sequence = 1,
                            bucket = [(1, demo_record\<lparr>Session.ID := 1, UpdatedAt := 3000,
                                                       ExpiresAt := 3600000003000\<rparr>)] \<rparr>\<rparr>"
  by (simp add: Save_call_def demo_calls_def Save_def getSessionFromCookie_def Cookie_def DecodeMulti_def
        FindOne_def EncodeMulti_def Update_def finish_Save_def SetCookie_def isCookieNameValid_def isTokenRune_def NewCookie_def Add_def
        Second_def demo_defs)

theorem repeated_Save_keeps_the_identifier_witness:
  "distinct (map fst (bucket (store demo_store_saved)))
   \<and> list_all (\<lambda>c. \<not> sint (MaxAge (sessions_Session.Options (call_session c))) < 0) demo_calls
   \<and> Get 1 (bucket (store demo_store_saved)) = Inr demo_record
   \<and> Get 1 (bucket (store (Saves demo_store_saved demo_calls)))
       = Inr (demo_record\<lparr>Session.ID := 1, UpdatedAt := 3000, ExpiresAt := 3600000003000\<rparr>)
   \<and> Session (demo_record\<lparr>Session.ID := 1, UpdatedAt := 3000, ExpiresAt := 3600000003000\<rparr>)
       = Session demo_record
   \<and> CreatedAt (demo_record\<lparr>Session.ID := 1, UpdatedAt := 3000, ExpiresAt := 3600000003000\<rparr>)
       = CreatedAt demo_record"
proof -
  have keys: "distinct (map fst (bucket (store demo_store_saved)))"
    by (simp add: demo_defs)
  have ages: "\<forall>c \<in> set demo_calls. \<not> sint (MaxAge (sessions_Session.Options (call_session c))) < 0"
    by (simp add: demo_calls_def demo_defs)
  have start: "Get 1 (bucket (store demo_store_saved)) = Inr demo_record"
    by (simp add: Get_def demo_defs)
  have final: "Get 1 (bucket (store (Saves demo_store_saved demo_calls)))
       = Inr (demo_record\<lparr>Session.ID := 1, UpdatedAt := 3000, ExpiresAt := 3600000003000\<rparr>)"
    unfolding demo_Saves by (simp add: Get_def)
  from repeated_Save_keeps_the_identifier [OF keys ages start] keys ages start final
  show ?thesis
    by (simp add: list_all_iff)
qed

section \<open>Errors of Save\<close>


lemma demo_Save_without_codecs:
  "Save (demo_store\<lparr>Codecs := []\<rparr>) \<lparr>cookies = []\<rparr> [] demo_session 1000 1000 ''RANDOMID'' =
     (Some ErrNoCodecs, demo_store\<lparr>Codecs := []\<rparr>, [], demo_session)"
  by (simp add: Save_def EncodeMulti_def demo_session_def demo_options_def)







section \<open>The expiry date of a saved record\<close>

lemma list_all_replace:
  "list_all P b \<Longrightarrow> (\<And>k. P (k, r)) \<Longrightarrow>
     list_all P (map (\<lambda>(k, old). if k = key then (k, r) else (k, old)) b)"
  by (induction b) auto

lemma New_keeps_the_store:
  "snd (snd (New st r nm tnow)) = st"
  by (simp add: New_def Let_def split: option.splits sum.splits)

lemma Cleanup_keeps_expiry_invariant:
  "expiry_invariant ages st \<Longrightarrow> expiry_invariant ages (Cleanup st tnow)"
  by (simp add: expiry_invariant_def Cleanup_def DeleteMatching_def list_all_iff)

lemma Add_Second:
  "0 \<le> sint m \<Longrightarrow> sint m \<le> 9223372036 \<Longrightarrow> Add now (Second * m) = now + 1000000000 * sint m"
  by (simp add: Add_def Second_times)

lemma Save_keeps_expiry_invariant:
  assumes run: "Save st r w session tlookup now rnd = (e, st1, w1, session1)"
      and ages: "list_all (\<lambda>m. 0 \<le> sint m \<and> sint m \<le> 9223372036) ages"
      and inv: "expiry_invariant ages st"
      and age: "sint (MaxAge (sessions_Session.Options session)) < 0
                \<or> MaxAge (sessions_Session.Options session) \<in> set ages"
  shows "expiry_invariant ages st1"
proof (cases "sint (MaxAge (sessions_Session.Options session)) < 0")
  case True
  from run inv show ?thesis
    unfolding Save_logout [OF True]
    by (auto simp: expiry_invariant_def list_all_iff split: option.splits)
next
  case nonneg: False
  let ?m = "MaxAge (sessions_Session.Options session)"
  from nonneg age have mem: "?m \<in> set ages" by simp
  with ages have range: "0 \<le> sint ?m" "sint ?m \<le> 9223372036"
    by (auto simp: list_all_iff)
  have written: "list_ex (\<lambda>m. expires_after m s) ages"
    if "UpdatedAt s = now" "ExpiresAt s = Add now (Second * ?m)" for s
    using that mem Add_Second [OF range, of now]
    by (auto simp: list_ex_iff expires_after_def)
  show ?thesis
  proof (cases "EncodeMulti (name session) (GobValues (Values session)) (Codecs st)")
    case (Inl e')
    with run nonneg inv show ?thesis by (simp add: Save_payload_error)
  next
    case (Inr data)
    show ?thesis
    proof (cases "getSessionFromCookie st r (name session) tlookup")
      case None
      from Save_insert_store [OF nonneg Inr None run] show ?thesis
      proof
        assume "st1 = st"
        with inv show ?thesis by simp
      next
        assume "sequence (store st) + 1 \<notin> set (map fst (bucket (store st)))
          \<and> st1 = st\<lparr>store := (store st)\<lparr>sequence := sequence (store st) + 1,
              bucket := bucket (store st) @
                [(sequence (store st) + 1,
                  \<lparr> Session.ID = 0, Session = rnd, Data = data, CreatedAt = now, UpdatedAt = now,
                    ExpiresAt = Add now (Second * ?m) \<rparr>)]\<rparr>\<rparr>"
        with inv written show ?thesis
          by (simp add: expiry_invariant_def)
      qed
    next
      case (Some s0)
      let ?s = "s0\<lparr>Data := data, UpdatedAt := now, ExpiresAt := Add now (Second * ?m)\<rparr>"
      have "list_ex (\<lambda>m. expires_after m ?s) ages"
        by (rule written) simp_all
      with inv show ?thesis
        unfolding Save_update_store [OF nonneg Inr Some run] expiry_invariant_def
        by (simp add: list_all_replace)
    qed
  qed
qed

text \<open>
  Claim C6 (expiry invariant): every record written by \<open>Save\<close>, inserted or updated, has
  \<open>ExpiresAt = UpdatedAt +\<close> max-age in seconds, and on the first save \<open>CreatedAt = UpdatedAt\<close>;
  the invariant holds for every persisted record after every operation.

  As amended, for a max-age from 0 to 9223372036 seconds, the range in which the max-age times
  \<open>time.Second\<close> fits the 64-bit duration. Whatever \<open>Save\<close> returns, once the payload is
  encoded the bucket is the old bucket with the new record at its end (update time and
  creation time \<open>now\<close>, expiry date \<open>now\<close> plus the max-age), or the old bucket with the
  record found replaced by itself with the new payload, update time \<open>now\<close> and that expiry
  date; every other record is as it was, and when nothing is written the store is as it was.
  When every record of the store satisfies the invariant for one of the max-ages in use, all
  in that range, it still does after a \<open>Save\<close> whose session has one of them or a negative
  one, and after \<open>Cleanup\<close>; \<open>New\<close> leaves the store as it was.
\<close>

theorem Save_sets_the_expiry:
  fixes session :: sessions_Session
  defines "m \<equiv> MaxAge (sessions_Session.Options session)"
  assumes run: "Save st r w session tlookup now rnd = (e, st1, w1, session1)"
  shows
    "(0 \<le> sint m \<and> sint m \<le> 9223372036
        \<and> EncodeMulti (name session) (GobValues (Values session)) (Codecs st) = Inr data
        \<and> getSessionFromCookie st r (name session) tlookup = None
        \<and> sequence (store st) + 1 \<notin> set (map fst (bucket (store st))) \<longrightarrow>
      bucket (store st1) = bucket (store st) @
        [(sequence (store st) + 1,
          \<lparr> Session.ID = 0, Session = rnd, Data = data, CreatedAt = now, UpdatedAt = now,
            ExpiresAt = now + 1000000000 * sint m \<rparr>)])
     \<and> (0 \<le> sint m \<and> sint m \<le> 9223372036
        \<and> EncodeMulti (name session) (GobValues (Values session)) (Codecs st) = Inr data
        \<and> getSessionFromCookie st r (name session) tlookup = Some s0 \<longrightarrow>
      bucket (store st1) =
        map (\<lambda>(k, old).
               if k = Session.ID s0
               then (k, s0\<lparr>Data := data, UpdatedAt := now, ExpiresAt := now + 1000000000 * sint m\<rparr>)
               else (k, old))
          (bucket (store st)))
     \<and> (0 \<le> sint m
        \<and> (EncodeMulti (name session) (GobValues (Values session)) (Codecs st) = Inl e'
            \<or> getSessionFromCookie st r (name session) tlookup = None
              \<and> sequence (store st) + 1 \<in> set (map fst (bucket (store st)))) \<longrightarrow>
      st1 = st)
     \<and> (list_all (\<lambda>a. 0 \<le> sint a \<and> sint a \<le> 9223372036) ages
        \<and> expiry_invariant ages st
        \<and> (sint m < 0 \<or> m \<in> set ages) \<longrightarrow>
      expiry_invariant ages st1)
     \<and> (expiry_invariant ages st \<longrightarrow> expiry_invariant ages (Cleanup st tsweep))
     \<and> snd (snd (New st r' nm' tnew)) = st"
proof (intro conjI impI)
  assume h: "0 \<le> sint m \<and> sint m \<le> 9223372036
        \<and> EncodeMulti (name session) (GobValues (Values session)) (Codecs st) = Inr data
        \<and> getSessionFromCookie st r (name session) tlookup = None
        \<and> sequence (store st) + 1 \<notin> set (map fst (bucket (store st)))"
  then have nonneg: "\<not> sint (MaxAge (sessions_Session.Options session)) < 0"
    and expire: "Add now (Second * MaxAge (sessions_Session.Options session)) = now + 1000000000 * sint m"
    by (simp_all add: m_def Add_Second)
  from h have enc: "EncodeMulti (name session) (GobValues (Values session)) (Codecs st) = Inr data"
    and found: "getSessionFromCookie st r (name session) tlookup = None"
    and free: "sequence (store st) + 1 \<notin> set (map fst (bucket (store st)))"
    by simp_all
  from run free have "st1 = st\<lparr>store := (store st)\<lparr>sequence := sequence (store st) + 1,
      bucket := bucket (store st) @
        [(sequence (store st) + 1,
          \<lparr> Session.ID = 0, Session = rnd, Data = data, CreatedAt = now, UpdatedAt = now,
            ExpiresAt = Add now (Second * MaxAge (sessions_Session.Options session)) \<rparr>)]\<rparr>\<rparr>"
    unfolding Save_insert [OF nonneg enc found] Let_def
    by (auto dest!: finish_Save_cases)
  then show "bucket (store st1) = bucket (store st) @
        [(sequence (store st) + 1,
          \<lparr> Session.ID = 0, Session = rnd, Data = data, CreatedAt = now, UpdatedAt = now,
            ExpiresAt = now + 1000000000 * sint m \<rparr>)]"
    unfolding expire by simp
next
  assume h: "0 \<le> sint m \<and> sint m \<le> 9223372036
        \<and> EncodeMulti (name session) (GobValues (Values session)) (Codecs st) = Inr data
        \<and> getSessionFromCookie st r (name session) tlookup = Some s0"
  then have nonneg: "\<not> sint (MaxAge (sessions_Session.Options session)) < 0"
    and expire: "Add now (Second * MaxAge (sessions_Session.Options session)) = now + 1000000000 * sint m"
    by (simp_all add: m_def Add_Second)
  from h have enc: "EncodeMulti (name session) (GobValues (Values session)) (Codecs st) = Inr data"
    and found: "getSessionFromCookie st r (name session) tlookup = Some s0"
    by simp_all
  show "bucket (store st1) =
        map (\<lambda>(k, old).
               if k = Session.ID s0
               then (k, s0\<lparr>Data := data, UpdatedAt := now, ExpiresAt := now + 1000000000 * sint m\<rparr>)
               else (k, old))
          (bucket (store st))"
    unfolding Save_update_store [OF nonneg enc found run] expire by simp
next
  assume h: "0 \<le> sint m
        \<and> (EncodeMulti (name session) (GobValues (Values session)) (Codecs st) = Inl e'
            \<or> getSessionFromCookie st r (name session) tlookup = None
              \<and> sequence (store st) + 1 \<in> set (map fst (bucket (store st))))"
  then have nonneg: "\<not> sint (MaxAge (sessions_Session.Options session)) < 0"
    by (simp add: m_def)
  from h show "st1 = st"
  proof (elim conjE disjE)
    assume "EncodeMulti (name session) (GobValues (Values session)) (Codecs st) = Inl e'"
    with run nonneg show ?thesis by (simp add: Save_payload_error)
  next
    assume found: "getSessionFromCookie st r (name session) tlookup = None"
      and taken: "sequence (store st) + 1 \<in> set (map fst (bucket (store st)))"
    show ?thesis
    proof (cases "EncodeMulti (name session) (GobValues (Values session)) (Codecs st)")
      case (Inl err)
      with run nonneg show ?thesis by (simp add: Save_payload_error)
    next
      case (Inr payload)
      from Save_insert_store [OF nonneg Inr found run] taken show ?thesis by blast
    qed
  qed
next
  assume h: "list_all (\<lambda>a. 0 \<le> sint a \<and> sint a \<le> 9223372036) ages
        \<and> expiry_invariant ages st
        \<and> (sint m < 0 \<or> m \<in> set ages)"
  then show "expiry_invariant ages st1"
    using Save_keeps_expiry_invariant [OF run, of ages] by (simp add: m_def)
next
  assume "expiry_invariant ages st"
  then show "expiry_invariant ages (Cleanup st tsweep)"
    by (rule Cleanup_keeps_expiry_invariant)
next
  show "snd (snd (New st r' nm' tnew)) = st"
    by (rule New_keeps_the_store)
qed

theorem Save_sets_the_expiry_witness:
  "0 \<le> sint (MaxAge (sessions_Session.Options demo_session))
   \<and> sint (MaxAge (sessions_Session.Options demo_session)) \<le> 9223372036
   \<and> EncodeMulti (name demo_session) (GobValues (Values demo_session)) (Codecs demo_store) = Inr ''token-of-values''
   \<and> getSessionFromCookie demo_store \<lparr>cookies = []\<rparr> (name demo_session) 1000 = None
   \<and> sequence (store demo_store) + 1 \<notin> set (map fst (bucket (store demo_store)))
   \<and> Save demo_store \<lparr>cookies = []\<rparr> [] demo_session 1000 1000 ''RANDOMID'' =
       (None, demo_store_saved, [demo_cookie], demo_session\<lparr>sessions_Session.ID := ''RANDOMID''\<rparr>)
   \<and> bucket (store demo_store_saved) = bucket (store demo_store) @
        [(1, \<lparr> Session.ID = 0, Session = ''RANDOMID'', Data = ''token-of-values'', CreatedAt = 1000,
               UpdatedAt = 1000, ExpiresAt = 1000 + 1000000000 * 3600 \<rparr>)]
   \<and> getSessionFromCookie demo_store_saved \<lparr>cookies = [(''sid'', ''token-of-identifier'')]\<rparr>
        (name demo_session) 2000 = Some (demo_record\<lparr>Session.ID := 1\<rparr>)
   \<and> Save demo_store_saved \<lparr>cookies = [(''sid'', ''token-of-identifier'')]\<rparr> [] demo_session 2000 2000 ''OTHERID'' =
       (None,
        demo_store\<lparr>store := \<lparr> sequence = 1,
                               bucket = [(1, demo_record\<lparr>Session.ID := 1, UpdatedAt := 2000,
                                                          ExpiresAt := 3600000002000\<rparr>)] \<rparr>\<rparr>,
        [demo_cookie], demo_session)
   \<and> [(1, demo_record\<lparr>Session.ID := 1, UpdatedAt := 2000, ExpiresAt := 3600000002000\<rparr>)] =
       map (\<lambda>(k, old).
              if k = 1
              then (k, demo_record\<lparr>Session.ID := 1, Data := ''token-of-values'', UpdatedAt := 2000,
                                     ExpiresAt := 2000 + 1000000000 * 3600\<rparr>)
              else (k, old))
         (bucket (store demo_store_saved))
   \<and> EncodeMulti (name demo_session) (GobValues (Values demo_session)) (Codecs (demo_store\<lparr>Codecs := []\<rparr>))
       = Inl ErrNoCodecs
   \<and> Save (demo_store\<lparr>Codecs := []\<rparr>) \<lparr>cookies = []\<rparr> [] demo_session 1000 1000 ''RANDOMID'' =
       (Some ErrNoCodecs, demo_store\<lparr>Codecs := []\<rparr>, [], demo_session)
   \<and> list_all (\<lambda>a. 0 \<le> sint a \<and> sint a \<le> 9223372036) [3600 :: go_int]
   \<and> MaxAge (sessions_Session.Options demo_session) \<in> set [3600]
   \<and> expiry_invariant [3600] demo_store
   \<and> expiry_invariant [3600] demo_store_saved
   \<and> expiry_invariant [3600]
        (demo_store\<lparr>store := \<lparr> sequence = 1,
                               bucket = [(1, demo_record\<lparr>Session.ID := 1, UpdatedAt := 2000,
                                                          ExpiresAt := 3600000002000\<rparr>)] \<rparr>\<rparr>)
   \<and> expiry_invariant [3600] (Cleanup demo_store_saved 2000)
   \<and> snd (snd (New demo_store_saved \<lparr>cookies = [(''sid'', ''token-of-identifier'')]\<rparr> ''sid'' 2000))
       = demo_store_saved"
proof -
  have age: "sint (MaxAge (sessions_Session.Options demo_session)) = 3600
      \<and> MaxAge (sessions_Session.Options demo_session) = 3600"
    by (simp add: demo_defs)
  have enc: "EncodeMulti (name demo_session) (GobValues (Values demo_session)) (Codecs demo_store) = Inr ''token-of-values''
      \<and> EncodeMulti (name demo_session) (GobValues (Values demo_session)) (Codecs demo_store_saved) = Inr ''token-of-values''
      \<and> EncodeMulti (name demo_session) (GobValues (Values demo_session)) (Codecs (demo_store\<lparr>Codecs := []\<rparr>))
          = Inl ErrNoCodecs"
    by (simp add: EncodeMulti_def demo_defs)
  have look: "getSessionFromCookie demo_store \<lparr>cookies = []\<rparr> (name demo_session) 1000 = None
      \<and> sequence (store demo_store) + 1 \<notin> set (map fst (bucket (store demo_store)))
      \<and> sequence (store demo_store) + 1 = 1
      \<and> bucket (store demo_store) = []
      \<and> bucket (store demo_store_saved) = [(1, demo_record)]"
    by (simp add: getSessionFromCookie_def Cookie_def demo_defs)
  have inv0: "expiry_invariant [3600] demo_store \<and> expiry_invariant [3600] demo_store_saved"
    by (simp add: expiry_invariant_def expires_after_def demo_defs)
  have rec: "demo_record = \<lparr> Session.ID = 0, Session = ''RANDOMID'', Data = ''token-of-values'',
      CreatedAt = 1000, UpdatedAt = 1000, ExpiresAt = 1000 + 1000000000 * 3600 \<rparr>
      \<and> demo_record\<lparr>Session.ID := 1, UpdatedAt := 2000, ExpiresAt := 3600000002000\<rparr>
        = demo_record\<lparr>Session.ID := 1, Data := ''token-of-values'', UpdatedAt := 2000,
                       ExpiresAt := 2000 + 1000000000 * 3600\<rparr>"
    by (simp add: demo_defs)
  note first = Save_sets_the_expiry [OF demo_Save,
      where data = "''token-of-values''" and ages = "[3600]" and tsweep = 2000
        and r' = "\<lparr>cookies = [(''sid'', ''token-of-identifier'')]\<rparr>" and nm' = "''sid''" and tnew = 2000]
  note second = Save_sets_the_expiry [OF demo_second_Save,
      where data = "''token-of-values''" and ?s0.0 = "demo_record\<lparr>Session.ID := 1\<rparr>"
        and ages = "[3600]" and tsweep = 2000
        and r' = "\<lparr>cookies = [(''sid'', ''token-of-identifier'')]\<rparr>" and nm' = "''sid''" and tnew = 2000]
  note third = Save_sets_the_expiry [OF demo_Save_without_codecs, where e' = ErrNoCodecs]
  from first second third age enc look inv0 rec demo_lookup demo_Save demo_second_Save
       demo_Save_without_codecs
  show ?thesis
    by simp
qed

text \<open>
  Against C6 as stated: with a max-age of 9223372037 seconds the product with \<open>time.Second\<close>
  wraps around, and the record is stored with an expiry date before its update time.
\<close>

theorem Save_expiry_wraps_around:
  "Save demo_store \<lparr>cookies = []\<rparr> []
        (demo_session\<lparr>sessions_Session.Options := demo_options\<lparr>MaxAge := 9223372037\<rparr>\<rparr>)
        1000 1000 ''RANDOMID'' =
     (None,
      demo_store\<lparr>store := \<lparr> sequence = 1,
                             bucket = [(1, demo_record\<lparr>ExpiresAt := - 9223372036709550616\<rparr>)] \<rparr>\<rparr>,
      [demo_cookie\<lparr>Attributes := demo_options\<lparr>MaxAge := 9223372037\<rparr>\<rparr>],
      demo_session\<lparr>sessions_Session.Options := demo_options\<lparr>MaxAge := 9223372037\<rparr>,
                   sessions_Session.ID := ''RANDOMID''\<rparr>)
   \<and> ExpiresAt (demo_record\<lparr>ExpiresAt := - 9223372036709550616\<rparr>)
        \<noteq> UpdatedAt (demo_record\<lparr>ExpiresAt := - 9223372036709550616\<rparr>)
            + 1000000000 * sint (9223372037 :: 64 word)
   \<and> ExpiresAt (demo_record\<lparr>ExpiresAt := - 9223372036709550616\<rparr>)
        < UpdatedAt (demo_record\<lparr>ExpiresAt := - 9223372036709550616\<rparr>)"
  by (simp add: Save_def getSessionFromCookie_def Cookie_def EncodeMulti_def Insert_NextSequence_def
        finish_Save_def SetCookie_def isCookieNameValid_def isTokenRune_def NewCookie_def Add_def Second_def demo_cookie_def demo_defs)

end
